theory Spec2Isabelle
  imports Main "HOL-Library.Word" "HOL-Library.Multiset" "HOL-Library.Monad_Syntax"
begin

section \<open>The persistent map of pkg/container/pmap.go\<close>

text \<open>
  The map is a treap whose nodes and payloads live on the Go heap and are shared between
  handles. Sharing and reference counts are what the properties are about, so the heap is
  explicit: a node pointer is an index into the list of all nodes ever allocated, a
  pointer to a \<open>refValue\<close> is an index into the list of all payloads. Go never frees an
  object that is still pointed to, so an allocation appends and nothing is removed.
  A nil pointer is \<open>None\<close>.

  The two counters are \<open>int32\<close> in the source and change by \<open>atomic.AddInt32\<close>; they are
  unbounded integers here (a counter wraps only after \<open>2^31\<close> simultaneous references).
  The weight is a \<open>uint64\<close>, a 64-bit word compared without sign.
  A release callback is recorded by whether it is present; invoking it appends the
  payload it belongs to and its two arguments to \<open>log\<close>.
\<close>

type_synonym addr = nat

record 'v refValue =
  rv_refCount :: int
  rv_value :: "'v option"
  rv_release :: bool

record 'k mapNode =
  key :: 'k
  valuep :: addr
  weight :: "64 word"
  refCount :: int
  left :: "addr option"
  right :: "addr option"

record ('k, 'v) heap =
  nodes :: "'k mapNode list"
  vals :: "'v refValue list"
  log :: "(addr \<times> 'k \<times> 'v option) list"

record PMap =
  root :: "addr option"

text \<open>Reading through a pointer; \<open>None\<close> is a pointer to nothing (a panic in Go).\<close>

definition node_at :: "('k, 'v) heap \<Rightarrow> addr \<Rightarrow> 'k mapNode option" where
  "node_at h a = (if a < length (nodes h) then Some (nodes h ! a) else None)"

definition val_at :: "('k, 'v) heap \<Rightarrow> addr \<Rightarrow> 'v refValue option" where
  "val_at h p = (if p < length (vals h) then Some (vals h ! p) else None)"

definition put_node :: "('k, 'v) heap \<Rightarrow> addr \<Rightarrow> 'k mapNode \<Rightarrow> ('k, 'v) heap" where
  "put_node h a n = h\<lparr>nodes := (nodes h)[a := n]\<rparr>"

definition put_val :: "('k, 'v) heap \<Rightarrow> addr \<Rightarrow> 'v refValue \<Rightarrow> ('k, 'v) heap" where
  "put_val h p v = h\<lparr>vals := (vals h)[p := v]\<rparr>"

definition alloc_node :: "('k, 'v) heap \<Rightarrow> 'k mapNode \<Rightarrow> ('k, 'v) heap \<times> addr" where
  "alloc_node h n = (h\<lparr>nodes := nodes h @ [n]\<rparr>, length (nodes h))"

definition alloc_val :: "('k, 'v) heap \<Rightarrow> 'v refValue \<Rightarrow> ('k, 'v) heap \<times> addr" where
  "alloc_val h v = (h\<lparr>vals := vals h @ [v]\<rparr>, length (vals h))"

text \<open>\<open>newNodeWithRef\<close>; the weight \<open>w\<close> is what \<open>rand.Uint64()\<close> returned.\<close>

definition newNodeWithRef ::
  "('k, 'v) heap \<Rightarrow> 'k \<Rightarrow> 'v \<Rightarrow> bool \<Rightarrow> 64 word \<Rightarrow> ('k, 'v) heap \<times> addr" where
  "newNodeWithRef h k v release w =
     (let (h1, p) = alloc_val h \<lparr>rv_refCount = 1, rv_value = Some v, rv_release = release\<rparr>
      in alloc_node h1 \<lparr>key = k, valuep = p, weight = w, refCount = 1,
                        left = None, right = None\<rparr>)"

definition shallowCloneWithRef :: "('k, 'v) heap \<Rightarrow> addr \<Rightarrow> (('k, 'v) heap \<times> addr) option" where
  "shallowCloneWithRef h a =
     do {
       n \<leftarrow> node_at h a;
       v \<leftarrow> val_at h (valuep n);
       let h1 = put_val h (valuep n) (v\<lparr>rv_refCount := rv_refCount v + 1\<rparr>);
       Some (alloc_node h1 \<lparr>key = key n, valuep = valuep n, weight = weight n, refCount = 1,
                            left = None, right = None\<rparr>)
     }"

definition incref :: "('k, 'v) heap \<Rightarrow> addr option \<Rightarrow> ('k, 'v) heap option" where
  "incref h node =
     (case node of
        None \<Rightarrow> Some h
      | Some a \<Rightarrow> do {
          n \<leftarrow> node_at h a;
          Some (put_node h a (n\<lparr>refCount := refCount n + 1\<rparr>))
        })"

text \<open>
  The part of \<open>decref\<close> that runs when the node's counter has reached zero, up to the two
  recursive calls: the payload's counter goes down and, at zero, the callback runs and
  the payload is cleared.
\<close>

definition drop_value :: "('k, 'v) heap \<Rightarrow> 'k mapNode \<Rightarrow> ('k, 'v) heap option" where
  "drop_value h n =
     do {
       v \<leftarrow> val_at h (valuep n);
       let h1 = put_val h (valuep n) (v\<lparr>rv_refCount := rv_refCount v - 1\<rparr>);
       if rv_refCount v - 1 = 0 then do {
         let h2 = (if rv_release v
                   then h1\<lparr>log := log h1 @ [(valuep n, key n, rv_value v)]\<rparr> else h1);
         v2 \<leftarrow> val_at h2 (valuep n);
         Some (put_val h2 (valuep n) (v2\<lparr>rv_value := None, rv_release := False\<rparr>))
       } else Some h1
     }"

partial_function (option) decref :: "('k, 'v) heap \<Rightarrow> addr option \<Rightarrow> ('k, 'v) heap option" where
  "decref h node =
     (case node of
        None \<Rightarrow> Some h
      | Some a \<Rightarrow> do {
          n \<leftarrow> node_at h a;
          let h1 = put_node h a (n\<lparr>refCount := refCount n - 1\<rparr>);
          if refCount n - 1 = 0 then do {
            n1 \<leftarrow> node_at h1 a;
            h2 \<leftarrow> drop_value h1 n1;
            n2 \<leftarrow> node_at h2 a;
            h3 \<leftarrow> decref h2 (left n2);
            n3 \<leftarrow> node_at h3 a;
            decref h3 (right n3)
          } else Some h1
        })"

text \<open>Assignments to the fields of a node.\<close>

definition set_left :: "('k, 'v) heap \<Rightarrow> addr \<Rightarrow> addr option \<Rightarrow> ('k, 'v) heap option" where
  "set_left h a l = do { n \<leftarrow> node_at h a; Some (put_node h a (n\<lparr>left := l\<rparr>)) }"

definition set_right :: "('k, 'v) heap \<Rightarrow> addr \<Rightarrow> addr option \<Rightarrow> ('k, 'v) heap option" where
  "set_right h a r = do { n \<leftarrow> node_at h a; Some (put_node h a (n\<lparr>right := r\<rparr>)) }"

definition set_weight :: "('k, 'v) heap \<Rightarrow> addr \<Rightarrow> 64 word \<Rightarrow> ('k, 'v) heap option" where
  "set_weight h a w = do { n \<leftarrow> node_at h a; Some (put_node h a (n\<lparr>weight := w\<rparr>)) }"

text \<open>
  \<open>split\<close>. The result is the heap after the call and the three pointers. Every read
  of a field of \<open>n\<close> is a read of the heap at that moment.
\<close>

partial_function (option) split ::
  "('k \<Rightarrow> 'k \<Rightarrow> bool) \<Rightarrow> bool \<Rightarrow> 'k \<Rightarrow> ('k, 'v) heap \<Rightarrow> addr option
     \<Rightarrow> (('k, 'v) heap \<times> addr option \<times> addr option \<times> addr option) option" where
  "split lessf requireMid k h n =
     (case n of
        None \<Rightarrow> Some (h, None, None, None)
      | Some a \<Rightarrow> do {
          nd \<leftarrow> node_at h a;
          if lessf (key nd) k then do {
            (h1, l, m, r) \<leftarrow> split lessf requireMid k h (right nd);
            if requireMid \<and> m = None then Some (h1, None, None, None)
            else do {
              (h2, newN) \<leftarrow> shallowCloneWithRef h1 a;
              nd2 \<leftarrow> node_at h2 a;
              h3 \<leftarrow> incref h2 (left nd2);
              h4 \<leftarrow> set_left h3 newN (left nd2);
              h5 \<leftarrow> set_right h4 newN l;
              Some (h5, Some newN, m, r)
            }
          } else if lessf k (key nd) then do {
            (h1, l, m, r) \<leftarrow> split lessf requireMid k h (left nd);
            if requireMid \<and> m = None then Some (h1, None, None, None)
            else do {
              (h2, newN) \<leftarrow> shallowCloneWithRef h1 a;
              h3 \<leftarrow> set_left h2 newN r;
              nd3 \<leftarrow> node_at h3 a;
              h4 \<leftarrow> incref h3 (right nd3);
              h5 \<leftarrow> set_right h4 newN (right nd3);
              Some (h5, l, m, Some newN)
            }
          } else do {
            (h1, mid) \<leftarrow> shallowCloneWithRef h a;
            nd1 \<leftarrow> node_at h1 a;
            h2 \<leftarrow> incref h1 (left nd1);
            nd2 \<leftarrow> node_at h2 a;
            h3 \<leftarrow> incref h2 (right nd2);
            Some (h3, left nd1, Some mid, right nd2)
          }
        })"

partial_function (option) merge ::
  "('k, 'v) heap \<Rightarrow> addr option \<Rightarrow> addr option \<Rightarrow> (('k, 'v) heap \<times> addr option) option" where
  "merge h l r =
     (case l of
        None \<Rightarrow> do { h1 \<leftarrow> incref h r; Some (h1, r) }
      | Some la \<Rightarrow>
          (case r of
             None \<Rightarrow> do { h1 \<leftarrow> incref h l; Some (h1, l) }
           | Some ra \<Rightarrow> do {
               ln \<leftarrow> node_at h la;
               rn \<leftarrow> node_at h ra;
               if weight ln > weight rn then do {
                 (h1, rt) \<leftarrow> shallowCloneWithRef h la;
                 ln1 \<leftarrow> node_at h1 la;
                 h2 \<leftarrow> incref h1 (left ln1);
                 h3 \<leftarrow> set_left h2 rt (left ln1);
                 ln3 \<leftarrow> node_at h3 la;
                 (h4, m) \<leftarrow> merge h3 (right ln3) r;
                 h5 \<leftarrow> set_right h4 rt m;
                 Some (h5, Some rt)
               } else do {
                 (h1, rt) \<leftarrow> shallowCloneWithRef h ra;
                 rn1 \<leftarrow> node_at h1 ra;
                 (h2, m) \<leftarrow> merge h1 l (left rn1);
                 h3 \<leftarrow> set_left h2 rt m;
                 rn3 \<leftarrow> node_at h3 ra;
                 h4 \<leftarrow> incref h3 (right rn3);
                 h5 \<leftarrow> set_right h4 rt (right rn3);
                 Some (h5, Some rt)
               }
             }))"

partial_function (option) union ::
  "('k \<Rightarrow> 'k \<Rightarrow> bool) \<Rightarrow> ('k, 'v) heap \<Rightarrow> addr option \<Rightarrow> addr option \<Rightarrow> bool
     \<Rightarrow> (('k, 'v) heap \<times> addr option) option" where
  "union lessf h first second overwrite =
     (case first of
        None \<Rightarrow> do { h1 \<leftarrow> incref h second; Some (h1, second) }
      | Some fa0 \<Rightarrow>
          (case second of
             None \<Rightarrow> do { h1 \<leftarrow> incref h first; Some (h1, first) }
           | Some sa0 \<Rightarrow> do {
               fn0 \<leftarrow> node_at h fa0;
               sn0 \<leftarrow> node_at h sa0;
               let (fa, sa, ow) = (if weight fn0 < weight sn0 then (sa0, fa0, \<not> overwrite)
                                   else (fa0, sa0, overwrite));
               fn \<leftarrow> node_at h fa;
               (h1, l, mid, r) \<leftarrow> split lessf False (key fn) h (Some sa);
               (h2, result) \<leftarrow> (if ow \<and> mid \<noteq> None
                                  then (case mid of None \<Rightarrow> None
                                        | Some m \<Rightarrow> shallowCloneWithRef h1 m)
                                  else shallowCloneWithRef h1 fa);
               fn2 \<leftarrow> node_at h2 fa;
               h3 \<leftarrow> set_weight h2 result (weight fn2);
               fn3 \<leftarrow> node_at h3 fa;
               (h4, ul) \<leftarrow> union lessf h3 (left fn3) l ow;
               h5 \<leftarrow> set_left h4 result ul;
               fn5 \<leftarrow> node_at h5 fa;
               (h6, ur) \<leftarrow> union lessf h5 (right fn5) r ow;
               h7 \<leftarrow> set_right h6 result ur;
               h8 \<leftarrow> decref h7 l;
               h9 \<leftarrow> decref h8 mid;
               h10 \<leftarrow> decref h9 r;
               Some (h10, Some result)
             }))"

text \<open>
  \<open>forEach\<close> with the visitor that collects what it is called with: the sequence of
  calls \<open>f(key, value)\<close>, in order.
\<close>

partial_function (option) forEach ::
  "('k, 'v) heap \<Rightarrow> addr option \<Rightarrow> ('k \<times> 'v option) list option" where
  "forEach h node =
     (case node of
        None \<Rightarrow> Some []
      | Some a \<Rightarrow> do {
          n \<leftarrow> node_at h a;
          ls \<leftarrow> forEach h (left n);
          v \<leftarrow> val_at h (valuep n);
          rs \<leftarrow> forEach h (right n);
          Some (ls @ [(key n, rv_value v)] @ rs)
        })"

text \<open>The loop of \<open>Get\<close>. The results \<open>(v, ok)\<close> start as the zero value and \<open>false\<close>.\<close>

partial_function (option) Get_loop ::
  "('k \<Rightarrow> 'k \<Rightarrow> bool) \<Rightarrow> 'k \<Rightarrow> ('k, 'v) heap \<Rightarrow> addr option \<Rightarrow> ('v::zero \<times> bool) option" where
  "Get_loop lessf k h node =
     (case node of
        None \<Rightarrow> Some (0, False)
      | Some a \<Rightarrow> do {
          n \<leftarrow> node_at h a;
          if lessf k (key n) then Get_loop lessf k h (left n)
          else if lessf (key n) k then Get_loop lessf k h (right n)
          else do {
            v \<leftarrow> val_at h (valuep n);
            x \<leftarrow> rv_value v;
            Some (x, True)
          }
        })"

subsection \<open>The methods of \<open>PMap\<close>\<close>

text \<open>
  A method takes the heap and the handle and returns both as the call leaves them.
  \<open>lessf\<close> is the \<open>Less\<close> method of the key type.
\<close>

definition NewPMap :: PMap where
  "NewPMap = \<lparr>root = None\<rparr>"

definition Clone :: "('k, 'v) heap \<Rightarrow> PMap \<Rightarrow> (('k, 'v) heap \<times> PMap) option" where
  "Clone h pm = do { h1 \<leftarrow> incref h (root pm); Some (h1, \<lparr>root = root pm\<rparr>) }"

definition Clear :: "('k, 'v) heap \<Rightarrow> PMap \<Rightarrow> (('k, 'v) heap \<times> PMap) option" where
  "Clear h pm = do { h1 \<leftarrow> decref h (root pm); Some (h1, pm\<lparr>root := None\<rparr>) }"

definition Destroy :: "('k, 'v) heap \<Rightarrow> PMap \<Rightarrow> (('k, 'v) heap \<times> PMap) option" where
  "Destroy h pm = Clear h pm"

definition Range :: "('k, 'v) heap \<Rightarrow> PMap \<Rightarrow> ('k \<times> 'v) list option" where
  "Range h pm =
     do {
       xs \<leftarrow> forEach h (root pm);
       if \<forall>x \<in> set xs. snd x \<noteq> None then Some (map (\<lambda>x. (fst x, the (snd x))) xs) else None
     }"

definition Empty :: "PMap \<Rightarrow> bool" where
  "Empty pm = (root pm = None)"

definition Get ::
  "('k \<Rightarrow> 'k \<Rightarrow> bool) \<Rightarrow> ('k, 'v) heap \<Rightarrow> PMap \<Rightarrow> 'k \<Rightarrow> ('v::zero \<times> bool) option" where
  "Get lessf h pm k = Get_loop lessf k h (root pm)"

definition SetAll ::
  "('k \<Rightarrow> 'k \<Rightarrow> bool) \<Rightarrow> ('k, 'v) heap \<Rightarrow> PMap \<Rightarrow> PMap \<Rightarrow> (('k, 'v) heap \<times> PMap) option" where
  "SetAll lessf h pm other =
     do {
       (h1, r) \<leftarrow> union lessf h (root pm) (root other) True;
       h2 \<leftarrow> decref h1 (root pm);
       Some (h2, pm\<lparr>root := r\<rparr>)
     }"

definition SetWithRelease ::
  "('k \<Rightarrow> 'k \<Rightarrow> bool) \<Rightarrow> ('k, 'v) heap \<Rightarrow> PMap \<Rightarrow> 'k \<Rightarrow> 'v \<Rightarrow> bool \<Rightarrow> 64 word
     \<Rightarrow> (('k, 'v) heap \<times> PMap) option" where
  "SetWithRelease lessf h pm k v release w =
     (let first = root pm;
          (h1, second) = newNodeWithRef h k v release w
      in do {
        (h2, r) \<leftarrow> union lessf h1 first (Some second) True;
        h3 \<leftarrow> decref h2 first;
        h4 \<leftarrow> decref h3 (Some second);
        Some (h4, pm\<lparr>root := r\<rparr>)
      })"

definition Set ::
  "('k \<Rightarrow> 'k \<Rightarrow> bool) \<Rightarrow> ('k, 'v) heap \<Rightarrow> PMap \<Rightarrow> 'k \<Rightarrow> 'v \<Rightarrow> 64 word
     \<Rightarrow> (('k, 'v) heap \<times> PMap) option" where
  "Set lessf h pm k v w = SetWithRelease lessf h pm k v False w"

definition Delete ::
  "('k \<Rightarrow> 'k \<Rightarrow> bool) \<Rightarrow> ('k, 'v) heap \<Rightarrow> PMap \<Rightarrow> 'k \<Rightarrow> (('k, 'v) heap \<times> PMap) option" where
  "Delete lessf h pm k =
     do {
       (h1, l, mid, r) \<leftarrow> split lessf True k h (root pm);
       if mid = None then Some (h1, pm)
       else do {
         (h2, rt) \<leftarrow> merge h1 l r;
         h3 \<leftarrow> decref h2 l;
         h4 \<leftarrow> decref h3 mid;
         h5 \<leftarrow> decref h4 r;
         h6 \<leftarrow> decref h5 (root pm);
         Some (h6, pm\<lparr>root := rt\<rparr>)
       }
     }"

declare decref.simps [code]
declare split.simps [code]
declare merge.simps [code]
declare union.simps [code]
declare forEach.simps [code]
declare Get_loop.simps [code]

definition empty_heap :: "('k, 'v) heap" where
  "empty_heap = \<lparr>nodes = [], vals = [], log = []\<rparr>"

subsection \<open>The shape of a subtree\<close>

text \<open>
  \<open>is_tree h n t\<close>: following \<open>left\<close> and \<open>right\<close> from the pointer \<open>n\<close> walks exactly
  the finite tree \<open>t\<close> of addresses.
\<close>

datatype 'a tree = Leaf | Node "'a tree" 'a "'a tree"

fun is_tree :: "('k, 'v) heap \<Rightarrow> addr option \<Rightarrow> addr tree \<Rightarrow> bool" where
  "is_tree h n Leaf = (n = None)"
| "is_tree h n (Node l a r) =
     (n = Some a \<and> (case node_at h a of None \<Rightarrow> False
                     | Some nd \<Rightarrow> is_tree h (left nd) l \<and> is_tree h (right nd) r))"

text \<open>Equality of keys as the ordering sees it.\<close>

definition equiv_key :: "('k \<Rightarrow> 'k \<Rightarrow> bool) \<Rightarrow> 'k \<Rightarrow> 'k \<Rightarrow> bool" where
  "equiv_key lessf a b = (\<not> lessf a b \<and> \<not> lessf b a)"

subsection \<open>A map with three bindings\<close>

text \<open>
  The heap and the handle after \<open>Set(3, 10)\<close>, \<open>Set(1, 11)\<close>, \<open>Set(2, 12)\<close> on a new map
  of naturals, with the weights 5, 7 and 6 drawn for the three nodes.
\<close>

definition ex_run :: "((nat, nat) heap \<times> PMap) option" where
  "ex_run = do {
     (h1, pm1) \<leftarrow> Set (<) empty_heap NewPMap 3 10 5;
     (h2, pm2) \<leftarrow> Set (<) h1 pm1 1 11 7;
     Set (<) h2 pm2 2 12 6
   }"

definition ex_node :: "nat \<Rightarrow> addr \<Rightarrow> 64 word \<Rightarrow> int \<Rightarrow> addr option \<Rightarrow> nat mapNode" where
  "ex_node k p w c r = \<lparr>key = k, valuep = p, weight = w, refCount = c, left = None, right = r\<rparr>"

definition ex_heap :: "(nat, nat) heap" where
  "ex_heap =
     \<lparr>nodes = [ex_node 3 0 5 0 None, ex_node 1 1 7 0 None, ex_node 3 0 5 0 None,
               ex_node 1 1 7 0 (Some 2), ex_node 2 2 6 0 None, ex_node 2 2 6 0 None,
               ex_node 1 1 7 1 (Some 8), ex_node 3 0 5 1 None, ex_node 2 2 6 1 (Some 7)],
      vals = [\<lparr>rv_refCount = 1, rv_value = Some 10, rv_release = False\<rparr>,
              \<lparr>rv_refCount = 1, rv_value = Some 11, rv_release = False\<rparr>,
              \<lparr>rv_refCount = 1, rv_value = Some 12, rv_release = False\<rparr>],
      log = []\<rparr>"

definition ex_tree :: "addr tree" where
  "ex_tree = Node Leaf 6 (Node Leaf 8 (Node Leaf 7 Leaf))"

section \<open>Properties\<close>

lemma ex_run_eq: "ex_run = Some (ex_heap, \<lparr>root = Some 6\<rparr>)"
  unfolding ex_run_def ex_heap_def ex_node_def by code_simp

lemma node_at_Some_iff: "node_at h a = Some n \<longleftrightarrow> a < length (nodes h) \<and> n = nodes h ! a"
  by (auto simp: node_at_def)

lemma node_at_valid [simp]: "a < length (nodes h) \<Longrightarrow> node_at h a = Some (nodes h ! a)"
  by (simp add: node_at_def)

lemma split_mid_none:
  assumes "split lessf rm k h n = Some res"
  shows "rm \<longrightarrow> fst (snd (snd res)) = None \<longrightarrow> res = (h, None, None, None)"
  apply (rule split.raw_induct[where P = "\<lambda>lessf rm k h n res.
           rm \<longrightarrow> fst (snd (snd res)) = None \<longrightarrow> res = (h, None, None, None)", OF _ assms])
  subgoal premises prems for split' lessf rm k h n res
    using prems(2)
    by (auto split: option.splits if_splits prod.splits Option.bind_splits dest!: prems(1))
  done

text \<open>
  C9. A call \<open>split(n, key, requireMid = true)\<close> that returns three nil pointers returns
  the heap it was given: no counter of a node or of a payload has moved, nothing was
  allocated, so no reference is left over from the recursion.
\<close>

theorem split_short_circuit_no_leak:
  "split lessf True k h n = Some (h', None, None, None) \<Longrightarrow> h' = h"
  using split_mid_none[of lessf True k h n "(h', None, None, None)"] by simp

theorem split_short_circuit_no_leak_witness:
  "split (<) True 4 ex_heap (Some 6) = Some (ex_heap, None, None, None) \<and> ex_heap = ex_heap"
proof -
  have s: "split (<) True 4 ex_heap (Some 6) = Some (ex_heap, None, None, None)"
    unfolding ex_heap_def ex_node_def by code_simp
  from split_short_circuit_no_leak[OF s] s show ?thesis by simp
qed

lemma Get_loop_absent:
  "is_tree h n t \<Longrightarrow> \<forall>a \<in> set_tree t. \<not> equiv_key lessf k (key (nodes h ! a)) \<Longrightarrow>
   Get_loop lessf k h n = Some (0, False)"
proof (induction t arbitrary: n)
  case Leaf
  then show ?case by (simp add: Get_loop.simps)
next
  case (Node l a r)
  then show ?case
    by (subst Get_loop.simps) (auto split: option.splits simp: node_at_Some_iff equiv_key_def)
qed

text \<open>
  C10. When no node below the root of a handle has a key equal to \<open>k\<close> under the ordering
  (in particular when the handle is new and its root is nil), \<open>Get(k)\<close> returns the zero
  value and \<open>false\<close>. \<open>Get\<close> only reads: it has no heap to return.
\<close>

theorem Get_absent:
  "is_tree h (root pm) t \<Longrightarrow> \<forall>a \<in> set_tree t. \<not> equiv_key lessf k (key (nodes h ! a)) \<Longrightarrow>
   Get lessf h pm k = Some (0, False)"
  unfolding Get_def by (rule Get_loop_absent)

theorem Get_absent_witness:
  "is_tree ex_heap (root \<lparr>root = Some 6\<rparr>) ex_tree
   \<and> Get (<) ex_heap \<lparr>root = Some 6\<rparr> 4 = Some (0 :: nat, False)"
proof -
  have t: "is_tree ex_heap (root \<lparr>root = Some 6\<rparr>) ex_tree"
    by (simp add: ex_heap_def ex_tree_def ex_node_def node_at_def)
  have a: "\<forall>a \<in> set_tree ex_tree. \<not> equiv_key (<) 4 (key (nodes ex_heap ! a))"
    by (simp add: ex_heap_def ex_tree_def ex_node_def equiv_key_def)
  from Get_absent[OF t a] t show ?thesis by simp
qed

end
